theory Spec2Isabelle
  imports Complex_Main
begin

section \<open>Python primitives used by SubSolarPoint.py\<close>

text \<open>
  Python floats are modelled as the real numbers they approximate, Python's unbounded
  ints as \<open>int\<close>. The operations of the source that can raise are values of a sum
  type: true division and the float remainder raise \<open>ZeroDivisionError\<close> on a zero
  divisor, \<open>math.asin\<close> raises \<open>ValueError\<close> outside \<open>[-1, 1]\<close>.
\<close>

datatype py_error = ZeroDivisionError | ValueError

definition and_then :: "py_error + 'a \<Rightarrow> ('a \<Rightarrow> py_error + 'b) \<Rightarrow> py_error + 'b" where
  "and_then r f = (case r of Inl e \<Rightarrow> Inl e | Inr v \<Rightarrow> f v)"

definition py_truediv :: "real \<Rightarrow> real \<Rightarrow> py_error + real" where
  "py_truediv x y = (if y = 0 then Inl ZeroDivisionError else Inr (x / y))"

text \<open>
  The float \<open>%\<close>: for a non-zero divisor the result is \<open>x - y * floor (x / y)\<close>, which takes
  the sign of the divisor.
\<close>

definition float_mod :: "real \<Rightarrow> real \<Rightarrow> real" where
  "float_mod x y = x - y * of_int \<lfloor>x / y\<rfloor>"

definition py_mod :: "real \<Rightarrow> real \<Rightarrow> py_error + real" where
  "py_mod x y = (if y = 0 then Inl ZeroDivisionError else Inr (float_mod x y))"

definition py_asin :: "real \<Rightarrow> py_error + real" where
  "py_asin x = (if x < - 1 \<or> 1 < x then Inl ValueError else Inr (arcsin x))"

text \<open>\<open>int(x)\<close> on a float truncates toward zero.\<close>

definition py_int :: "real \<Rightarrow> int" where
  "py_int x = (if 0 \<le> x then \<lfloor>x\<rfloor> else \<lceil>x\<rceil>)"

section \<open>class Constants\<close>

definition degrees_longitude_per_hour :: int where "degrees_longitude_per_hour = 15"
definition degrees_to_radians :: real where "degrees_to_radians = 0.01745329252"
definition earth_tilt_in_degrees :: real where "earth_tilt_in_degrees = 23.43715"
definition earth_tilt_in_radians :: real where "earth_tilt_in_radians = 0.40905543478"
definition julian_date_for_jan_01_1970_at_0000_gmt :: real where
  "julian_date_for_jan_01_1970_at_0000_gmt = 2440587.5"
definition noon_time :: int where "noon_time = 12"
definition number_of_days_in_a_century :: int where "number_of_days_in_a_century = 36525"
definition number_of_days_in_a_year :: int where "number_of_days_in_a_year = 365"
definition number_of_hours_in_a_day :: int where "number_of_hours_in_a_day = 24"
definition number_of_minutes_in_a_day :: int where "number_of_minutes_in_a_day = 1440"
definition number_of_minutes_in_a_year :: int where
  "number_of_minutes_in_a_year = number_of_days_in_a_year * number_of_minutes_in_a_day"
definition number_of_minutes_in_an_hour :: int where "number_of_minutes_in_an_hour = 60"
definition number_of_seconds_in_a_day :: int where "number_of_seconds_in_a_day = 86400"
definition number_of_seconds_in_a_minute :: int where "number_of_seconds_in_a_minute = 60"
definition number_of_seconds_in_a_year :: int where
  "number_of_seconds_in_a_year = number_of_seconds_in_a_day * number_of_days_in_a_year"
definition number_of_seconds_in_an_hour :: int where "number_of_seconds_in_an_hour = 3600"
definition one_eighty_degrees :: int where "one_eighty_degrees = 180"
definition radians_to_degrees :: real where "radians_to_degrees = 57.2957795131"
definition three_sixty_degrees :: int where "three_sixty_degrees = 360"

section \<open>class CoordinateConversions\<close>

text \<open>
  \<open>format_string.format(...)\<close> is the last step of the source function; the format
  string is modelled by its \<open>format\<close> method, a function of the six arguments the source
  passes to it (\<open>coordinates_string_format\<close> of the class Constants is one such format
  string). \<open>//\<close> and \<open>%\<close> on Python ints are \<open>div\<close> and \<open>mod\<close> on \<open>int\<close>: both round toward
  minus infinity.
\<close>

definition decimal_coordinates_to_deg_min_sec ::
  "real \<Rightarrow> real \<Rightarrow> (int \<Rightarrow> int \<Rightarrow> string \<Rightarrow> int \<Rightarrow> int \<Rightarrow> string \<Rightarrow> 'a) \<Rightarrow> 'a" where
  "decimal_coordinates_to_deg_min_sec latitude longitude format_string =
     (let lat_seconds = py_int (latitude * of_int number_of_seconds_in_an_hour);
          lat_degrees = lat_seconds div number_of_seconds_in_an_hour;
          lat_seconds = \<bar>lat_seconds mod number_of_seconds_in_an_hour\<bar>;
          lat_minutes = lat_seconds div number_of_seconds_in_a_minute;
          lat_seconds = lat_seconds mod number_of_seconds_in_a_minute;
          lon_seconds = py_int (longitude * of_int number_of_seconds_in_an_hour);
          lon_degrees = lon_seconds div number_of_seconds_in_an_hour;
          lon_seconds = \<bar>lon_seconds mod number_of_seconds_in_an_hour\<bar>;
          lon_minutes = lon_seconds div number_of_seconds_in_a_minute;
          lon_seconds = lon_seconds mod number_of_seconds_in_a_minute
      in format_string
           \<bar>lat_degrees\<bar> lat_minutes (if lat_degrees \<ge> 0 then ''North'' else ''South'')
           \<bar>lon_degrees\<bar> lon_minutes (if lon_degrees \<ge> 0 then ''East'' else ''West''))"

text \<open>The six arguments as they reach \<open>format\<close>, in the order of the source.\<close>

definition format_arguments ::
  "int \<Rightarrow> int \<Rightarrow> string \<Rightarrow> int \<Rightarrow> int \<Rightarrow> string \<Rightarrow> (int \<times> int \<times> string) \<times> (int \<times> int \<times> string)" where
  "format_arguments lat_d lat_m lat_h lon_d lon_m lon_h = ((lat_d, lat_m, lat_h), (lon_d, lon_m, lon_h))"

section \<open>class Astrocalculations\<close>

text \<open>
  A \<open>datetime\<close> carries what the source reads from it: the value of \<open>date.timestamp()\<close>
  (seconds since the Unix epoch) and the \<open>hour\<close> and \<open>minute\<close> attributes.
\<close>

record datetime =
  timestamp :: real
  hour :: int
  minute :: int

definition jd_from_date :: "datetime \<Rightarrow> py_error + real" where
  "jd_from_date date =
     and_then (py_truediv (timestamp date) (of_int number_of_seconds_in_a_day))
       (\<lambda>q. Inr (julian_date_for_jan_01_1970_at_0000_gmt + q))"

definition julian_century_since_jan_2000 :: "datetime \<Rightarrow> py_error + real" where
  "julian_century_since_jan_2000 date =
     and_then (jd_from_date date)
       (\<lambda>j_d. py_truediv (j_d - 2451545) (of_int number_of_days_in_a_century))"


definition mean_anomaly :: "real \<Rightarrow> real" where
  "mean_anomaly t = 357.52911 + t * 35999.05029 - t * 0.0001537"

definition geometric_mean_longitude_of_sun_at_current_time :: "real \<Rightarrow> py_error + real" where
  "geometric_mean_longitude_of_sun_at_current_time t =
     py_mod (280.46646 + t * 36000.76983 + t * t * 0.0003032) (of_int three_sixty_degrees)"

definition sun_equation_of_center :: "real \<Rightarrow> real" where
  "sun_equation_of_center t =
     (let m = mean_anomaly t
      in sin (m * degrees_to_radians) * (1.914602 - t * (0.004817 + 0.000014 * t)) +
         sin (2 * m * degrees_to_radians) * (0.019993 - 0.000101 * t) +
         sin (3 * m * degrees_to_radians) * 0.000289)"

definition latitude_of_sun :: "datetime \<Rightarrow> py_error + real" where
  "latitude_of_sun date =
     and_then (julian_century_since_jan_2000 date) (\<lambda>jC.
     and_then (geometric_mean_longitude_of_sun_at_current_time jC) (\<lambda>geom_mean_longitude.
       let sun_true_longitude = geom_mean_longitude + sun_equation_of_center jC
       in and_then
            (py_asin (sin (sun_true_longitude * degrees_to_radians) * sin earth_tilt_in_radians))
            (\<lambda>latitude_of_sun. Inr (latitude_of_sun * radians_to_degrees))))"








section \<open>Unfolding the constants\<close>

lemmas Constants_defs =
  degrees_longitude_per_hour_def degrees_to_radians_def earth_tilt_in_degrees_def
  earth_tilt_in_radians_def julian_date_for_jan_01_1970_at_0000_gmt_def noon_time_def
  number_of_days_in_a_century_def number_of_hours_in_a_day_def
  number_of_minutes_in_an_hour_def number_of_seconds_in_a_day_def
  number_of_seconds_in_a_minute_def number_of_seconds_in_an_hour_def
  radians_to_degrees_def three_sixty_degrees_def

section \<open>Basic facts about the primitives\<close>

lemma and_then_Inr [simp]: "and_then (Inr v) f = f v"
  by (simp add: and_then_def)

lemma and_then_Inl [simp]: "and_then (Inl e) f = Inl e"
  by (simp add: and_then_def)


lemma py_mod_nonzero: "y \<noteq> 0 \<Longrightarrow> py_mod x y = Inr (float_mod x y)"
  by (simp add: py_mod_def)

lemma py_truediv_nonzero: "y \<noteq> 0 \<Longrightarrow> py_truediv x y = Inr (x / y)"
  by (simp add: py_truediv_def)

lemma jd_from_date_value:
  "jd_from_date date = Inr (2440587.5 + timestamp date / 86400)"
  by (simp add: jd_from_date_def py_truediv_nonzero Constants_defs)

lemma julian_century_value:
  "julian_century_since_jan_2000 date = Inr ((2440587.5 + timestamp date / 86400 - 2451545) / 36525)"
  by (simp add: julian_century_since_jan_2000_def jd_from_date_value py_truediv_nonzero Constants_defs)

lemma geometric_mean_longitude_value:
  "geometric_mean_longitude_of_sun_at_current_time t =
     Inr (float_mod (280.46646 + t * 36000.76983 + t * t * 0.0003032) 360)"
  by (simp add: geometric_mean_longitude_of_sun_at_current_time_def py_mod_nonzero Constants_defs)

section \<open>The mean anomaly\<close>

lemma mean_anomaly_quadratic_iff:
  "mean_anomaly t = 357.52911 + 35999.05029 * t - 0.0001537 * t\<^sup>2 \<longleftrightarrow> t = 0 \<or> t = 1"
proof -
  have "mean_anomaly t - (357.52911 + 35999.05029 * t - 0.0001537 * t\<^sup>2)
          = 0.0001537 * (t * (t - 1))"
    by (simp add: mean_anomaly_def power2_eq_square algebra_simps)
  then show ?thesis by auto
qed

text \<open>
  C1: \<open>mean_anomaly t\<close> is claimed to be \<open>357.52911 + 35999.05029 t - 0.0001537 t\<^sup>2\<close>. The
  source multiplies the last coefficient by \<open>t\<close> once: at \<open>t = 2\<close> it returns
  \<open>72355.6293826\<close>, where the quadratic formula gives \<open>72355.6290752\<close>.
\<close>

theorem mean_anomaly_at_two:
  "mean_anomaly 2 = 72355.6293826
     \<and> 357.52911 + 35999.05029 * 2 - 0.0001537 * 2\<^sup>2 = (72355.6290752 :: real)
     \<and> mean_anomaly 2 \<noteq> 357.52911 + 35999.05029 * 2 - 0.0001537 * 2\<^sup>2"
  by (simp add: mean_anomaly_def)

section \<open>The geometric mean longitude\<close>


section \<open>The latitude of the sun\<close>

lemma tilt_bounds: "0 \<le> earth_tilt_in_radians" "earth_tilt_in_radians \<le> pi / 2"
proof -
  show "0 \<le> earth_tilt_in_radians" by (simp add: earth_tilt_in_radians_def)
  have "earth_tilt_in_radians \<le> 1" by (simp add: earth_tilt_in_radians_def)
  also have "1 \<le> pi / 2" using pi_ge_two by simp
  finally show "earth_tilt_in_radians \<le> pi / 2" .
qed

lemma sin_tilt_range: "0 \<le> sin earth_tilt_in_radians" "sin earth_tilt_in_radians \<le> 1"
proof -
  have "earth_tilt_in_radians \<le> pi" using tilt_bounds(2) pi_ge_zero by linarith
  then show "0 \<le> sin earth_tilt_in_radians" using tilt_bounds(1) by (rule sin_ge_zero [rotated])
  show "sin earth_tilt_in_radians \<le> 1" by simp
qed

lemma asin_argument_range:
  "\<bar>sin x * sin earth_tilt_in_radians\<bar> \<le> sin earth_tilt_in_radians"
proof -
  have "\<bar>sin x * sin earth_tilt_in_radians\<bar> = \<bar>sin x\<bar> * sin earth_tilt_in_radians"
    using sin_tilt_range(1) by (simp add: abs_mult)
  also have "\<dots> \<le> 1 * sin earth_tilt_in_radians"
    using sin_tilt_range(1) by (intro mult_right_mono) simp_all
  finally show ?thesis by simp
qed

lemma py_asin_defined:
  "py_asin (sin x * sin earth_tilt_in_radians) = Inr (arcsin (sin x * sin earth_tilt_in_radians))"
proof -
  have "\<bar>sin x * sin earth_tilt_in_radians\<bar> \<le> 1"
    using asin_argument_range [of x] sin_tilt_range(2) by linarith
  then show ?thesis by (simp add: py_asin_def abs_le_iff not_less)
qed

lemma arcsin_tilt_bound:
  "\<bar>arcsin (sin x * sin earth_tilt_in_radians)\<bar> \<le> earth_tilt_in_radians"
proof -
  let ?s = "sin earth_tilt_in_radians" and ?a = "sin x * sin earth_tilt_in_radians"
  have r: "- ?s \<le> ?a" "?a \<le> ?s" using asin_argument_range [of x] by (simp_all add: abs_le_iff)
  have h: "- (pi / 2) \<le> earth_tilt_in_radians" using tilt_bounds(1) pi_ge_zero by linarith
  have up: "arcsin ?a \<le> arcsin ?s"
    using r sin_tilt_range by (intro arcsin_le_arcsin) linarith+
  have lo: "arcsin (- ?s) \<le> arcsin ?a"
    using r sin_tilt_range by (intro arcsin_le_arcsin) linarith+
  have e: "arcsin ?s = earth_tilt_in_radians" using h tilt_bounds(2) by (rule arcsin_sin)
  have "arcsin (- ?s) = - arcsin ?s" using sin_tilt_range by (intro arcsin_minus) linarith+
  with up lo e show ?thesis by (simp add: abs_le_iff)
qed

lemma latitude_of_sun_value:
  "\<exists>x. latitude_of_sun date = Inr (arcsin (sin x * sin earth_tilt_in_radians) * radians_to_degrees)"
  by (simp add: latitude_of_sun_def julian_century_value geometric_mean_longitude_value
      py_asin_defined Let_def) blast

text \<open>
  C4: for every instant the latitude of the sun is returned without error and its absolute
  value is at most 23.43715 degrees, the axial tilt \<open>earth_tilt_in_degrees\<close>.
\<close>

theorem latitude_of_sun_bounded_by_tilt:
  "\<exists>lat. latitude_of_sun date = Inr lat \<and> \<bar>lat\<bar> \<le> 23.43715 \<and> \<bar>lat\<bar> \<le> earth_tilt_in_degrees"
proof -
  obtain x where v:
    "latitude_of_sun date = Inr (arcsin (sin x * sin earth_tilt_in_radians) * radians_to_degrees)"
    using latitude_of_sun_value by blast
  have "\<bar>arcsin (sin x * sin earth_tilt_in_radians) * radians_to_degrees\<bar>
          = \<bar>arcsin (sin x * sin earth_tilt_in_radians)\<bar> * radians_to_degrees"
    by (simp add: abs_mult radians_to_degrees_def)
  also have "\<dots> \<le> earth_tilt_in_radians * radians_to_degrees"
    using arcsin_tilt_bound [of x] by (intro mult_right_mono) (simp_all add: radians_to_degrees_def)
  also have "\<dots> \<le> 23.43715" by (simp add: earth_tilt_in_radians_def radians_to_degrees_def)
  finally show ?thesis using v by (simp add: earth_tilt_in_degrees_def)
qed

section \<open>The subsolar longitude\<close>




section \<open>Totality of the computational core\<close>





section \<open>What the subsolar point depends on\<close>








section \<open>The equation of time\<close>







subsection \<open>Enclosures of the sine\<close>













section \<open>The coordinate formatter\<close>

lemma minutes_range:
  fixes s :: int
  shows "0 \<le> \<bar>s mod 3600\<bar> div 60 \<and> \<bar>s mod 3600\<bar> div 60 \<le> 59"
proof -
  have a: "0 \<le> s mod 3600" and b: "s mod 3600 < 3600" by simp_all
  from a b have "(s mod 3600) div 60 \<le> 59" by linarith
  moreover from a have "0 \<le> (s mod 3600) div 60" by (simp add: pos_imp_zdiv_nonneg_iff)
  ultimately show ?thesis using a by (simp add: abs_of_nonneg)
qed

lemma degrees_of_nonnegative:
  assumes "0 \<le> x"
  shows "py_int (x * 3600) div 3600 = py_int x" and "0 \<le> py_int (x * 3600) div 3600"
proof -
  have "\<lfloor>x * 3600 / real_of_int 3600\<rfloor> = \<lfloor>x * 3600\<rfloor> div 3600"
    by (rule floor_divide_real_eq_div) simp
  then have "\<lfloor>x * 3600\<rfloor> div 3600 = \<lfloor>x\<rfloor>" by simp
  then show "py_int (x * 3600) div 3600 = py_int x" using assms by (simp add: py_int_def)
  then show "0 \<le> py_int (x * 3600) div 3600" using assms by (simp add: py_int_def)
qed

lemma decimal_coordinates_of_nonnegative:
  assumes "0 \<le> latitude" and "0 \<le> longitude"
  shows "decimal_coordinates_to_deg_min_sec latitude longitude format_arguments
           = ((py_int latitude, (py_int (latitude * 3600) mod 3600) div 60, ''North''),
              (py_int longitude, (py_int (longitude * 3600) mod 3600) div 60, ''East''))"
  using degrees_of_nonnegative [OF assms(1)] degrees_of_nonnegative [OF assms(2)]
  by (simp add: decimal_coordinates_to_deg_min_sec_def format_arguments_def Constants_defs
      Let_def)

text \<open>
  C3: the degrees are claimed to be the input truncated toward zero, with the hemisphere
  following the sign of the input. On latitude \<open>-0.5\<close> and longitude \<open>-74.25\<close> the source
  passes 1 degree 30 minutes South and 75 degrees 45 minutes West to the format string:
  \<open>//\<close> rounds the negative count of seconds toward minus infinity, where truncation of the
  inputs gives 0 and 74 degrees. On \<open>-0.0001\<close> the count of seconds is 0 and the labels are
  North and East, although the input is negative.
\<close>

theorem decimal_coordinates_negative_fraction:
  "decimal_coordinates_to_deg_min_sec (- 0.5) (- 74.25) format_arguments
     = ((1, 30, ''South''), (75, 45, ''West''))
   \<and> \<bar>py_int (- 0.5)\<bar> = 0 \<and> \<bar>py_int (- 74.25)\<bar> = 74
   \<and> decimal_coordinates_to_deg_min_sec (- 0.0001) (- 0.0001) format_arguments
     = ((0, 0, ''North''), (0, 0, ''East''))"
  by (simp add: decimal_coordinates_to_deg_min_sec_def format_arguments_def py_int_def
      Constants_defs Let_def ceiling_def)

text \<open>
  C7: latitude 40.5 and longitude -74.0 give 40 degrees 30 minutes North and 74 degrees
  0 minutes West: the degrees reach the format string as absolute values, the sign of
  -74 being carried by the label West.
\<close>

theorem decimal_coordinates_example:
  "decimal_coordinates_to_deg_min_sec 40.5 (- 74.0) format_arguments
     = ((40, 30, ''North''), (74, 0, ''West''))"
  by (simp add: decimal_coordinates_to_deg_min_sec_def format_arguments_def py_int_def
      Constants_defs Let_def)

text \<open>
  C10: for every latitude and longitude, the minutes passed to the format string lie
  between 0 and 59, the degrees passed to it are non-negative, and the hemisphere labels
  are North or South for the latitude and East or West for the longitude.
\<close>

theorem decimal_coordinates_components_in_range:
  "case decimal_coordinates_to_deg_min_sec latitude longitude format_arguments of
     ((lat_d, lat_m, lat_h), (lon_d, lon_m, lon_h)) \<Rightarrow>
       0 \<le> lat_d \<and> 0 \<le> lat_m \<and> lat_m \<le> 59 \<and> (lat_h = ''North'' \<or> lat_h = ''South'') \<and>
       0 \<le> lon_d \<and> 0 \<le> lon_m \<and> lon_m \<le> 59 \<and> (lon_h = ''East'' \<or> lon_h = ''West'')"
  using minutes_range [of "py_int (latitude * 3600)"]
    minutes_range [of "py_int (longitude * 3600)"]
  by (simp add: decimal_coordinates_to_deg_min_sec_def format_arguments_def Constants_defs
      Let_def)

end
